theory Spec2Isabelle
  imports Main
begin

section \<open>Strings and values of the host language\<close>

text \<open>
  The program is a TypeScript page (\<^verbatim>\<open>App.tsx\<close>) with one service function
  (\<^verbatim>\<open>editImageWithPrompt\<close>). Strings are modelled as \<^typ>\<open>string\<close>; every string the
  modelled code inspects character by character (a data URL, a prompt) is read one code unit
  per \<^typ>\<open>char\<close>, which covers the code units below 256. A value that may be
  \<^verbatim>\<open>undefined\<close> at run time is an \<^typ>\<open>'a option\<close>, whatever the erased
  TypeScript annotation says.
\<close>

text \<open>
  \<^verbatim>\<open>s.split(',')\<close>: the pieces between all commas, in order; never an empty array. The
  scan carries the piece read so far and closes it at each comma and at the end.
\<close>

fun split_from :: "string \<Rightarrow> string \<Rightarrow> string list" where
  "split_from piece [] = [piece]"
| "split_from piece (c # cs) =
     (if c = CHR '','' then piece # split_from [] cs else split_from (piece @ [c]) cs)"

definition split_comma :: "string \<Rightarrow> string list" where
  "split_comma s = split_from [] s"

text \<open>Array indexing, \<^verbatim>\<open>xs[i]\<close>: \<^verbatim>\<open>undefined\<close> out of range.\<close>

fun js_index :: "'a list \<Rightarrow> nat \<Rightarrow> 'a option" where
  "js_index [] i = None"
| "js_index (x # xs) 0 = Some x"
| "js_index (x # xs) (Suc i) = js_index xs i"

text \<open>
  The line terminators that \<^verbatim>\<open>.\<close> of a regular expression (no \<^verbatim>\<open>s\<close> flag)
  does not match: LF and CR (U+2028 and U+2029 lie outside the modelled code units).
\<close>

definition line_terminator :: "char \<Rightarrow> bool" where
  "line_terminator c \<longleftrightarrow> c = CHR 0x0A \<or> c = CHR 0x0D"

text \<open>
  The tail \<^verbatim>\<open>(.*?);\<close> of the pattern, tried at one position: the lazy star first tries
  to end (the next character is the semicolon), otherwise takes one more character, which
  must not be a line terminator. The result is the captured group.
\<close>

fun lazy_group :: "string \<Rightarrow> string option" where
  "lazy_group [] = None"
| "lazy_group (c # cs) =
     (if c = CHR '';'' then Some []
      else if line_terminator c then None
      else map_option ((#) c) (lazy_group cs))"

text \<open>
  \<^verbatim>\<open>header.match(/:(.*?);/)?.[1]\<close>: the leftmost colon from which the tail matches
  decides; \<^const>\<open>None\<close> is \<^verbatim>\<open>undefined\<close> (no match).
\<close>

fun match_mime :: "string \<Rightarrow> string option" where
  "match_mime [] = None"
| "match_mime (c # cs) =
     (if c = CHR '':'' then
        (case lazy_group cs of Some g \<Rightarrow> Some g | None \<Rightarrow> match_mime cs)
      else match_mime cs)"

text \<open>\<^verbatim>\<open>x || d\<close> on a possibly undefined string: the empty string is falsy too.\<close>

fun or_default :: "string option \<Rightarrow> string \<Rightarrow> string" where
  "or_default None d = d"
| "or_default (Some []) d = d"
| "or_default (Some (c # cs)) d = c # cs"

text \<open>
  Values that the code catches: an \<^verbatim>\<open>Error\<close> object with its message (the provider
  library's errors are such objects), or the event a failed \<^verbatim>\<open>FileReader\<close> hands to
  \<^verbatim>\<open>onerror\<close>, which has no \<^verbatim>\<open>message\<close>.
\<close>

datatype thrown = Error string | ReadErrorEvent

text \<open>\<^verbatim>\<open>`${x}`\<close> in a template literal: an undefined value prints as \<^verbatim>\<open>undefined\<close>.\<close>

fun template :: "string option \<Rightarrow> string" where
  "template None = ''undefined''"
| "template (Some s) = s"

text \<open>The template \<^verbatim>\<open>`data:${mimeType};base64,${data}`\<close>.\<close>

definition data_uri :: "string \<Rightarrow> string \<Rightarrow> string" where
  "data_uri m b = ''data:'' @ m @ '';base64,'' @ b"

text \<open>
  \<^verbatim>\<open>s.trim()\<close> removes white space and line terminators at both ends; among the modelled
  code units these are TAB, LF, VT, FF, CR, SP and NBSP.
\<close>

definition js_whitespace :: "char \<Rightarrow> bool" where
  "js_whitespace c \<longleftrightarrow>
     c = CHR 0x09 \<or> c = CHR 0x0A \<or> c = CHR 0x0B \<or> c = CHR 0x0C \<or> c = CHR 0x0D \<or>
     c = CHR 0x20 \<or> c = CHR 0xA0"

definition trim :: "string \<Rightarrow> string" where
  "trim s = rev (dropWhile js_whitespace (rev (dropWhile js_whitespace s)))"

section \<open>The provider library's request and response\<close>

text \<open>
  The shapes of \<^verbatim>\<open>@google/genai\<close> that the service touches. Every field of a response
  is optional in that library, hence an option here.
\<close>

record blob =
  data :: "string option"
  mimeType :: "string option"

record part =
  inlineData :: "blob option"
  text_field :: "string option"

record content =
  parts :: "part list option"

record candidate =
  content :: "content option"

record response =
  candidates :: "candidate list option"

datatype modality = MODALITY_UNSPECIFIED | TEXT | IMAGE | AUDIO

record generation_config =
  responseModalities :: "modality list"

record request =
  model :: string
  contents :: content
  config :: generation_config

text \<open>One call of \<^verbatim>\<open>ai.models.generateContent\<close> answers or throws.\<close>

datatype api_outcome = Responds response | Throws thrown

text \<open>\<^verbatim>\<open>console.error(label, value)\<close> and \<^verbatim>\<open>console.error(value)\<close>.\<close>

datatype log_entry = ConsoleError "string option" thrown

text \<open>What a run does to the outside: the requests sent and the lines logged, in order.\<close>

record effects =
  requests :: "request list"
  console :: "log_entry list"

section \<open>The encoder: \<^verbatim>\<open>fileToData\<close>\<close>

text \<open>A file is an opaque handle; what reading it yields is decided by the platform.\<close>

datatype js_file = File nat

text \<open>\<^verbatim>\<open>readAsDataURL\<close> ends in \<^verbatim>\<open>onload\<close>, with the result string, or in \<^verbatim>\<open>onerror\<close>.\<close>

datatype read_outcome = Loaded string | ReadFailed

record file_data =
  base64 :: "string option"
  mimeType :: string
  dataUrl :: string

text \<open>The body of \<^verbatim>\<open>reader.onload\<close>, on the string the reader holds.\<close>

definition fileToData_onload :: "string \<Rightarrow> file_data" where
  "fileToData_onload result =
     (let pieces = split_comma result;
          header = hd pieces;
          data = js_index pieces (Suc 0);
          mimeType = or_default (match_mime header) ''application/octet-stream''
      in \<lparr>base64 = data, mimeType = mimeType, dataUrl = result\<rparr>)"

text \<open>
  \<^verbatim>\<open>fileToData(file)\<close>: the promise resolves with the triple (\<^const>\<open>Inr\<close>) or rejects
  with the reader's error event (\<^const>\<open>Inl\<close>).
\<close>

definition fileToData :: "(js_file \<Rightarrow> read_outcome) \<Rightarrow> js_file \<Rightarrow> thrown + file_data" where
  "fileToData reader file =
     (case reader file of
        Loaded result \<Rightarrow> Inr (fileToData_onload result)
      | ReadFailed \<Rightarrow> Inl ReadErrorEvent)"

section \<open>The edit client: \<^verbatim>\<open>editImageWithPrompt\<close>\<close>

text \<open>\<^verbatim>\<open>response.candidates?.[0]?.content?.parts || []\<close>\<close>

definition response_parts :: "response \<Rightarrow> part list" where
  "response_parts r =
     (case candidates r of
        None \<Rightarrow> []
      | Some cs \<Rightarrow>
          (case js_index cs 0 of
             None \<Rightarrow> []
           | Some c \<Rightarrow>
               (case content c of
                  None \<Rightarrow> []
                | Some ct \<Rightarrow> (case parts ct of None \<Rightarrow> [] | Some ps \<Rightarrow> ps))))"

text \<open>
  The \<^verbatim>\<open>for ... of\<close> loop: the first part whose \<^verbatim>\<open>inlineData\<close> is present makes the
  function return; \<^const>\<open>None\<close> means the loop ran to its end.
\<close>

fun scan_parts :: "part list \<Rightarrow> string option" where
  "scan_parts [] = None"
| "scan_parts (p # ps) =
     (case inlineData p of
        Some b \<Rightarrow> Some (data_uri (template (blob.mimeType b)) (template (data b)))
      | None \<Rightarrow> scan_parts ps)"

text \<open>
  The request built from the three arguments (\<^verbatim>\<open>base64ImageData\<close>, \<^verbatim>\<open>mimeType\<close>,
  \<^verbatim>\<open>prompt\<close>; the last two are named \<open>mime\<close> and \<open>userPrompt\<close> here, apart from the
  record fields of those names).
\<close>

definition edit_request :: "string option \<Rightarrow> string \<Rightarrow> string \<Rightarrow> request" where
  "edit_request base64ImageData mime userPrompt =
     \<lparr>model = ''gemini-2.5-flash-image'',
      contents = \<lparr>parts = Some
        [\<lparr>inlineData = Some \<lparr>data = base64ImageData, mimeType = Some mime\<rparr>,
          text_field = None\<rparr>,
         \<lparr>inlineData = None, text_field = Some userPrompt\<rparr>]\<rparr>,
      config = \<lparr>responseModalities = [IMAGE]\<rparr>\<rparr>"

text \<open>
  The \<^verbatim>\<open>try\<close> block after the call: \<^const>\<open>Inr\<close> is its \<^verbatim>\<open>return\<close>,
  \<^const>\<open>Inl\<close> the value thrown inside it, by the call or by the \<^verbatim>\<open>throw\<close> after the loop.
\<close>

definition edit_try :: "api_outcome \<Rightarrow> thrown + string" where
  "edit_try answer =
     (case answer of
        Throws e \<Rightarrow> Inl e
      | Responds r \<Rightarrow>
          (case scan_parts (response_parts r) of
             Some uri \<Rightarrow> Inr uri
           | None \<Rightarrow> Inl (Error ''No image data was found in the API response.'')))"

text \<open>
  The whole function: the \<^verbatim>\<open>catch\<close> clause encloses the \<^verbatim>\<open>try\<close> block, logs
  what was thrown there and throws its own error. The first argument is the provider.
\<close>

definition editImageWithPrompt ::
  "(request \<Rightarrow> api_outcome) \<Rightarrow> string option \<Rightarrow> string \<Rightarrow> string \<Rightarrow> (thrown + string) \<times> effects"
where
  "editImageWithPrompt generateContent base64ImageData mime userPrompt =
     (let req = edit_request base64ImageData mime userPrompt in
      case edit_try (generateContent req) of
        Inr uri \<Rightarrow> (Inr uri, \<lparr>requests = [req], console = []\<rparr>)
      | Inl e \<Rightarrow>
          (Inl (Error ''Failed to generate the image due to an API error. Please check the console and try again.''),
           \<lparr>requests = [req], console = [ConsoleError (Some ''Error calling Gemini API:'') e]\<rparr>))"

text \<open>
  The same function with the network as an explicit resource, statement by statement. The
  world holds the requests handed to \<^verbatim>\<open>ai.models.generateContent\<close> so far, the answer the
  provider gives to the call of each number (so a second call may be answered differently
  from the first), and the console. A network call is one invocation of
  \<^verbatim>\<open>generateContent\<close>, the only network operation of the program's own code; the
  provider library's transport is not part of it.
\<close>

record world =
  sent :: "request list"
  answers :: "nat \<Rightarrow> request \<Rightarrow> api_outcome"
  logged :: "log_entry list"

text \<open>
  \<^verbatim>\<open>await ai.models.generateContent(req)\<close>: the call is recorded and answered by the
  provider's answer to the call of this number. Nothing else touches \<^const>\<open>sent\<close>.
\<close>

definition ai_models_generateContent :: "request \<Rightarrow> world \<Rightarrow> api_outcome \<times> world" where
  "ai_models_generateContent req w =
     (answers w (length (sent w)) req, w\<lparr>sent := sent w @ [req]\<rparr>)"

text \<open>\<^verbatim>\<open>console.error(label, e)\<close>\<close>

definition console_error :: "string option \<Rightarrow> thrown \<Rightarrow> world \<Rightarrow> world" where
  "console_error label e w = w\<lparr>logged := logged w @ [ConsoleError label e]\<rparr>"

text \<open>
  \<^verbatim>\<open>editImageWithPrompt\<close> run in a world: the call, then the \<^verbatim>\<open>try\<close> block on its
  answer, then the \<^verbatim>\<open>catch\<close> clause.
\<close>

definition editImageWithPrompt_in ::
  "string option \<Rightarrow> string \<Rightarrow> string \<Rightarrow> world \<Rightarrow> (thrown + string) \<times> world"
where
  "editImageWithPrompt_in base64ImageData mime userPrompt w =
     (case ai_models_generateContent (edit_request base64ImageData mime userPrompt) w of
        (answer, w1) \<Rightarrow>
          (case edit_try answer of
             Inr uri \<Rightarrow> (Inr uri, w1)
           | Inl e \<Rightarrow>
               (Inl (Error ''Failed to generate the image due to an API error. Please check the console and try again.''),
                console_error (Some ''Error calling Gemini API:'') e w1)))"

section \<open>The controller: the state of \<^verbatim>\<open>App\<close> and its handlers\<close>

record controller =
  uploadedImageFile :: "js_file option"
  uploadedImagePreview :: "string option"
  prompt :: string
  generatedImage :: "string option"
  isLoading :: bool
  error :: "string option"

text \<open>\<^verbatim>\<open>err.message\<close>: the reader's error event has none.\<close>

fun message :: "thrown \<Rightarrow> string option" where
  "message (Error m) = Some m"
| "message ReadErrorEvent = None"

text \<open>
  \<^verbatim>\<open>handleFileChange\<close>, run until the promise of \<^verbatim>\<open>fileToData\<close> has settled. The
  second argument is \<^verbatim>\<open>event.target.files?.[0]\<close>.
\<close>

definition handleFileChange ::
  "(js_file \<Rightarrow> read_outcome) \<Rightarrow> js_file option \<Rightarrow> controller \<Rightarrow> controller \<times> log_entry list"
where
  "handleFileChange reader selected st =
     (case selected of
        None \<Rightarrow> (st, [])
      | Some file \<Rightarrow>
          (let st1 = st\<lparr>uploadedImageFile := Some file\<rparr> in
           case fileToData reader file of
             Inr d \<Rightarrow>
               (st1\<lparr>uploadedImagePreview := Some (dataUrl d),
                    generatedImage := None,
                    error := None\<rparr>, [])
           | Inl err \<Rightarrow>
               (st1\<lparr>error := Some ''Could not read the selected file.''\<rparr>,
                [ConsoleError None err])))"

text \<open>
  A run of \<^verbatim>\<open>handleGenerate\<close>: the state shown while the handler awaits (absent when
  it returns at once), the state when it has finished, and what it did to the outside.
\<close>

record generate_run =
  awaiting :: "controller option"
  settled :: controller
  did :: effects

text \<open>The \<^verbatim>\<open>catch\<close> clause of \<^verbatim>\<open>handleGenerate\<close>, then its \<^verbatim>\<open>finally\<close>.\<close>

definition generate_failed :: "thrown \<Rightarrow> controller \<Rightarrow> controller" where
  "generate_failed err st =
     st\<lparr>error := Some (or_default (message err) ''An unknown error occurred.''),
        isLoading := False\<rparr>"

definition handleGenerate ::
  "(js_file \<Rightarrow> read_outcome) \<Rightarrow> (request \<Rightarrow> api_outcome) \<Rightarrow> controller \<Rightarrow> generate_run"
where
  "handleGenerate reader generateContent st =
     (case uploadedImageFile st of
        None \<Rightarrow>
          \<lparr>awaiting = None,
           settled = st\<lparr>error := Some ''Please upload an image and enter a prompt.''\<rparr>,
           did = \<lparr>requests = [], console = []\<rparr>\<rparr>
      | Some file \<Rightarrow>
          if trim (prompt st) = [] then
            \<lparr>awaiting = None,
             settled = st\<lparr>error := Some ''Please upload an image and enter a prompt.''\<rparr>,
             did = \<lparr>requests = [], console = []\<rparr>\<rparr>
          else
            (let st1 = st\<lparr>isLoading := True, error := None, generatedImage := None\<rparr> in
             case fileToData reader file of
               Inl err \<Rightarrow>
                 \<lparr>awaiting = Some st1,
                  settled = generate_failed err st1,
                  did = \<lparr>requests = [], console = [ConsoleError None err]\<rparr>\<rparr>
             | Inr d \<Rightarrow>
                 (case editImageWithPrompt generateContent (base64 d) (mimeType d) (prompt st) of
                    (Inr resultDataUrl, eff) \<Rightarrow>
                      \<lparr>awaiting = Some st1,
                       settled = st1\<lparr>generatedImage := Some resultDataUrl, isLoading := False\<rparr>,
                       did = eff\<rparr>
                  | (Inl err, eff) \<Rightarrow>
                      \<lparr>awaiting = Some st1,
                       settled = generate_failed err st1,
                       did = eff\<lparr>console := console eff @ [ConsoleError None err]\<rparr>\<rparr>)))"

section \<open>Notions of the specification\<close>

text \<open>
  The specification speaks of an encoded string made of a header \<^verbatim>\<open><mimeType>;base64,\<close>
  and a base64 payload. These predicates say what its two ingredients are: a MIME type is a
  non-empty \<^verbatim>\<open>type/subtype\<close> name over the characters such names may hold, a payload is
  text over the base64 alphabet.
\<close>

definition mime_char :: "char \<Rightarrow> bool" where
  "mime_char c \<longleftrightarrow>
     c \<in> set ''abcdefghijklmnopqrstuvwxyzABCDEFGHIJKLMNOPQRSTUVWXYZ0123456789!#$&-^_.+/''"

definition is_mime_type :: "string \<Rightarrow> bool" where
  "is_mime_type m \<longleftrightarrow> m \<noteq> [] \<and> list_all mime_char m"

definition base64_char :: "char \<Rightarrow> bool" where
  "base64_char c \<longleftrightarrow>
     c \<in> set ''ABCDEFGHIJKLMNOPQRSTUVWXYZabcdefghijklmnopqrstuvwxyz0123456789+/=''"

definition is_base64 :: "string \<Rightarrow> bool" where
  "is_base64 b \<longleftrightarrow> list_all base64_char b"

text \<open>
  In the specification's words: the encoded string split at its first comma into header and
  payload (none when it has no comma), and the substring of a header between its first
  \<^verbatim>\<open>:\<close> and the first \<^verbatim>\<open>;\<close> after it.
\<close>

definition spec_split_first_comma :: "string \<Rightarrow> (string \<times> string) option" where
  "spec_split_first_comma s =
     (if CHR '','' \<in> set s
      then Some (takeWhile (\<lambda>c. c \<noteq> CHR '','') s, tl (dropWhile (\<lambda>c. c \<noteq> CHR '','') s))
      else None)"

definition spec_header_mime :: "string \<Rightarrow> string option" where
  "spec_header_mime h =
     (let after = dropWhile (\<lambda>c. c \<noteq> CHR '':'') h in
      if after = [] \<or> CHR '';'' \<notin> set (tl after) then None
      else Some (takeWhile (\<lambda>c. c \<noteq> CHR '';'') (tl after)))"

section \<open>Facts about the string functions\<close>

lemma split_from_nonempty: "split_from piece s \<noteq> []"
  by (induction s arbitrary: piece) auto

lemma split_from_no_comma: "CHR '','' \<notin> set s \<Longrightarrow> split_from piece s = [piece @ s]"
  by (induction s arbitrary: piece) auto

lemma split_from_append:
  "CHR '','' \<notin> set h \<Longrightarrow>
   split_from piece (h @ CHR '','' # rest) = (piece @ h) # split_from [] rest"
  by (induction h arbitrary: piece) auto

lemma split_comma_nonempty: "split_comma s \<noteq> []"
  by (simp add: split_comma_def split_from_nonempty)

lemma split_comma_no_comma: "CHR '','' \<notin> set s \<Longrightarrow> split_comma s = [s]"
  by (simp add: split_comma_def split_from_no_comma)

lemma split_comma_append:
  "CHR '','' \<notin> set h \<Longrightarrow> split_comma (h @ CHR '','' # rest) = h # split_comma rest"
  by (simp add: split_comma_def split_from_append)

lemma lazy_group_append:
  "\<forall>c\<in>set m. c \<noteq> CHR '';'' \<and> \<not> line_terminator c \<Longrightarrow>
   lazy_group (m @ CHR '';'' # rest) = Some m"
  by (induction m) auto

lemma match_mime_data:
  "lazy_group cs = Some g \<Longrightarrow> match_mime (''data:'' @ cs) = Some g"
  by simp

lemma onload_header_payload:
  assumes "CHR '','' \<notin> set header" and "CHR '','' \<notin> set payload"
  shows "fileToData_onload (header @ CHR '','' # payload) =
           \<lparr>base64 = Some payload,
            mimeType = or_default (match_mime header) ''application/octet-stream'',
            dataUrl = header @ CHR '','' # payload\<rparr>"
  using assms by (simp add: fileToData_onload_def split_comma_append split_comma_no_comma)

text \<open>
  Two facts that mark where \<^verbatim>\<open>split(',')\<close> differs from a split at the first comma only:
  a payload with a further comma is cut at that comma, and a string without any comma has
  no payload at all (\<^verbatim>\<open>data\<close> is \<^verbatim>\<open>undefined\<close>). Neither arises on base64 text.
\<close>

lemma onload_further_comma:
  assumes "CHR '','' \<notin> set header" and "CHR '','' \<notin> set piece"
  shows "base64 (fileToData_onload (header @ CHR '','' # piece @ CHR '','' # rest)) = Some piece"
  using assms by (simp add: fileToData_onload_def split_comma_append)

lemma onload_no_comma:
  assumes "CHR '','' \<notin> set result"
  shows "base64 (fileToData_onload result) = None"
  using assms by (simp add: fileToData_onload_def split_comma_no_comma)

lemma mime_char_plain:
  "mime_char c \<Longrightarrow> c \<noteq> CHR '';'' \<and> c \<noteq> CHR '','' \<and> c \<noteq> CHR '':'' \<and> \<not> line_terminator c"
  by (auto simp: mime_char_def line_terminator_def)

lemma base64_char_plain: "base64_char c \<Longrightarrow> c \<noteq> CHR '',''"
  by (auto simp: base64_char_def)

lemma is_base64_no_comma: "is_base64 b \<Longrightarrow> CHR '','' \<notin> set b"
  by (auto simp: is_base64_def list_all_iff dest: base64_char_plain)

lemma dropWhile_all: "(\<forall>x\<in>set (dropWhile P s). P x) \<longleftrightarrow> (\<forall>x\<in>set s. P x)"
  by (induction s) auto

lemma trim_empty_iff: "trim s = [] \<longleftrightarrow> list_all js_whitespace s"
  by (simp add: trim_def list_all_iff dropWhile_all)

lemma scan_parts_none: "scan_parts ps = None \<longleftrightarrow> list_all (\<lambda>p. inlineData p = None) ps"
  by (induction ps) (auto split: option.splits)

lemma scan_parts_first:
  assumes "\<forall>q\<in>set pre. inlineData q = None" and "inlineData p = Some b"
  shows "scan_parts (pre @ p # post) =
           Some (data_uri (template (blob.mimeType b)) (template (data b)))"
  using assms by (induction pre) auto

lemma or_default_nonempty: "d \<noteq> [] \<Longrightarrow> or_default x d \<noteq> []"
  by (cases "(x, d)" rule: or_default.cases) auto

lemma takeWhile_stop: "y \<notin> set xs \<Longrightarrow> takeWhile (\<lambda>c. c \<noteq> y) (xs @ y # ys) = xs"
  by (induction xs) auto

lemma dropWhile_stop: "y \<notin> set xs \<Longrightarrow> dropWhile (\<lambda>c. c \<noteq> y) (xs @ y # ys) = y # ys"
  by (induction xs) auto

lemma spec_split_header_payload:
  "CHR '','' \<notin> set h \<Longrightarrow> spec_split_first_comma (h @ CHR '','' # p) = Some (h, p)"
  by (simp add: spec_split_first_comma_def takeWhile_stop dropWhile_stop)

lemma spec_header_mime_data:
  assumes "CHR '';'' \<notin> set m"
  shows "spec_header_mime (''data:'' @ m @ CHR '';'' # rest) = Some m"
  using assms by (simp add: spec_header_mime_def takeWhile_stop)

text \<open>
  A media type with parameters is cut at its first semicolon: the lazy group stops there.
\<close>

lemma fileToData_onload_parameters:
  "fileToData_onload ''data:text/plain;charset=utf-8;base64,QUJD'' =
     \<lparr>base64 = Some ''QUJD'', mimeType = ''text/plain'',
      dataUrl = ''data:text/plain;charset=utf-8;base64,QUJD''\<rparr>"
  by (simp add: fileToData_onload_def split_comma_def line_terminator_def)

section \<open>The encoder\<close>

text \<open>
  Claim C3. When reading the file yields a well-formed data URL, that is
  \<^verbatim>\<open>data:<m>;base64,<b>\<close> with \<open>m\<close> a MIME type (a non-empty name over the characters
  of type and subtype names, so without parameters) and \<open>b\<close> base64 text, \<^verbatim>\<open>fileToData\<close>
  resolves to the triple of \<open>b\<close>, \<open>m\<close> and the data URL itself: its \<^verbatim>\<open>dataUrl\<close> is
  \<^verbatim>\<open>data:<mimeType>;base64,<base64>\<close>. Splitting that data URL at its first comma gives back
  the returned payload, and the header's text between the colon and the first semicolon is
  the returned MIME type.
\<close>

theorem fileToData_roundtrip:
  assumes "is_mime_type m" and "is_base64 b" and "reader file = Loaded (data_uri m b)"
  shows "fileToData reader file = Inr \<lparr>base64 = Some b, mimeType = m, dataUrl = data_uri m b\<rparr> \<and>
         spec_split_first_comma (data_uri m b) = Some (''data:'' @ m @ '';base64'', b) \<and>
         spec_header_mime (''data:'' @ m @ '';base64'') = Some m"
proof -
  from assms(1) have ne: "m \<noteq> []" and plain:
    "\<forall>c\<in>set m. c \<noteq> CHR '';'' \<and> c \<noteq> CHR '','' \<and> c \<noteq> CHR '':'' \<and> \<not> line_terminator c"
    by (auto simp: is_mime_type_def list_all_iff dest: mime_char_plain)
  let ?header = "''data:'' @ m @ '';base64''"
  have uri: "data_uri m b = ?header @ CHR '','' # b"
    by (simp add: data_uri_def)
  have hc: "CHR '','' \<notin> set ?header" using plain by auto
  have bc: "CHR '','' \<notin> set b" using assms(2) by (rule is_base64_no_comma)
  have "lazy_group (m @ CHR '';'' # ''base64'') = Some m"
    using plain by (intro lazy_group_append) blast
  then have mm: "match_mime ?header = Some m"
    using match_mime_data [of "m @ '';base64''" m] by simp
  have "fileToData_onload (data_uri m b) =
          \<lparr>base64 = Some b, mimeType = m, dataUrl = data_uri m b\<rparr>"
    unfolding uri using onload_header_payload [OF hc bc] mm ne
    by (cases m) simp_all
  then have 1: "fileToData reader file =
      Inr \<lparr>base64 = Some b, mimeType = m, dataUrl = data_uri m b\<rparr>"
    using assms(3) by (simp add: fileToData_def)
  have 2: "spec_split_first_comma (data_uri m b) = Some (?header, b)"
    unfolding uri using hc by (rule spec_split_header_payload)
  have 3: "spec_header_mime ?header = Some m"
    using spec_header_mime_data [of m "''base64''"] plain by auto
  from 1 2 3 show ?thesis by blast
qed

theorem fileToData_roundtrip_witness:
  "is_mime_type ''image/png'' \<and> is_base64 ''QUJD'' \<and>
   fileToData (\<lambda>_. Loaded ''data:image/png;base64,QUJD'') (File 0) =
     Inr \<lparr>base64 = Some ''QUJD'', mimeType = ''image/png'',
          dataUrl = ''data:image/png;base64,QUJD''\<rparr> \<and>
   spec_split_first_comma ''data:image/png;base64,QUJD'' = Some (''data:image/png;base64'', ''QUJD'') \<and>
   spec_header_mime ''data:image/png;base64'' = Some ''image/png''"
  using fileToData_roundtrip [of "''image/png''" "''QUJD''" "\<lambda>_. Loaded ''data:image/png;base64,QUJD''" "File 0"]
  by (simp add: is_mime_type_def mime_char_def is_base64_def base64_char_def data_uri_def)

text \<open>
  Claim C7. When the header (the text before the first comma) has no \<^verbatim>\<open>:...;\<close> segment
  that the pattern matches, and the payload after the comma is base64 text, the encoder
  resolves to the MIME type \<^verbatim>\<open>application/octet-stream\<close>, the payload as \<^verbatim>\<open>base64\<close> and
  the whole encoded string as \<^verbatim>\<open>dataUrl\<close>.
\<close>

theorem fileToData_default_mime:
  assumes "CHR '','' \<notin> set header" and "match_mime header = None" and "is_base64 payload"
    and "reader file = Loaded (header @ CHR '','' # payload)"
  shows "fileToData reader file =
           Inr \<lparr>base64 = Some payload, mimeType = ''application/octet-stream'',
                dataUrl = header @ CHR '','' # payload\<rparr>"
  using assms onload_header_payload [of header payload]
  by (simp add: fileToData_def is_base64_no_comma)

theorem fileToData_default_mime_witness:
  "CHR '','' \<notin> set ''base64'' \<and> match_mime ''base64'' = None \<and> is_base64 ''QUJD'' \<and>
   fileToData (\<lambda>_. Loaded ''base64,QUJD'') (File 0) =
     Inr \<lparr>base64 = Some ''QUJD'', mimeType = ''application/octet-stream'',
          dataUrl = ''base64,QUJD''\<rparr>"
  using fileToData_default_mime [of "''base64''" "''QUJD''" "\<lambda>_. Loaded ''base64,QUJD''" "File 0"]
  by (simp add: is_base64_def base64_char_def)

text \<open>
  Claim C10. When the pattern matches the header with an empty group, as for the header
  \<^verbatim>\<open>data:;base64\<close>, the encoder falls back to \<^verbatim>\<open>application/octet-stream\<close> too, so
  the MIME type it returns is a non-empty string on every input.
\<close>

theorem fileToData_mimeType_nonempty:
  "(match_mime (hd (split_comma result)) = Some [] \<longrightarrow>
      mimeType (fileToData_onload result) = ''application/octet-stream'') \<and>
   mimeType (fileToData_onload (''data:;base64'' @ CHR '','' # payload)) = ''application/octet-stream'' \<and>
   mimeType (fileToData_onload result) \<noteq> [] \<and>
   (fileToData reader file = Inr r \<longrightarrow> mimeType r \<noteq> [])"
proof -
  have ne: "mimeType (fileToData_onload s) \<noteq> []" for s
    by (simp add: fileToData_onload_def Let_def or_default_nonempty)
  have "split_comma (''data:;base64'' @ CHR '','' # payload) = ''data:;base64'' # split_comma payload"
    by (rule split_comma_append) simp
  then have ex: "mimeType (fileToData_onload (''data:;base64'' @ CHR '','' # payload)) =
      ''application/octet-stream''"
    by (simp add: fileToData_onload_def Let_def)
  have "fileToData reader file = Inr r \<longrightarrow> mimeType r \<noteq> []"
    using ne by (auto simp: fileToData_def split: read_outcome.splits)
  with ne ex show ?thesis
    by (simp add: fileToData_onload_def Let_def)
qed

theorem fileToData_mimeType_nonempty_witness:
  "match_mime (hd (split_comma ''data:;base64,QUJD'')) = Some [] \<and>
   fileToData (\<lambda>_. Loaded ''data:;base64,QUJD'') (File 0) =
     Inr (fileToData_onload ''data:;base64,QUJD'') \<and>
   mimeType (fileToData_onload ''data:;base64,QUJD'') = ''application/octet-stream'' \<and>
   mimeType (fileToData_onload ''data:;base64,QUJD'') \<noteq> []"
  using fileToData_mimeType_nonempty [of "''data:;base64,QUJD''" "''QUJD''"
      "\<lambda>_. Loaded ''data:;base64,QUJD''" "File 0" "fileToData_onload ''data:;base64,QUJD''"]
  by (simp add: fileToData_def split_comma_def)

section \<open>The edit client\<close>

lemma edit_no_image_generic:
  assumes "generateContent (edit_request b m p) = Responds r"
    and "list_all (\<lambda>q. inlineData q = None) (response_parts r)"
  shows "editImageWithPrompt generateContent b m p =
    (Inl (Error ''Failed to generate the image due to an API error. Please check the console and try again.''),
     \<lparr>requests = [edit_request b m p],
      console = [ConsoleError (Some ''Error calling Gemini API:'')
                   (Error ''No image data was found in the API response.'')]\<rparr>)"
  using assms by (simp add: editImageWithPrompt_def edit_try_def scan_parts_none [symmetric])

text \<open>
  Claim C1. A response whose only part is a text part carries no inline image data. The
  function throws the error \<^verbatim>\<open>No image data was found in the API response.\<close> inside its own
  \<^verbatim>\<open>try\<close> block, so the enclosing \<^verbatim>\<open>catch\<close> logs it and the caller receives the same
  generic error as for a failed call; the message for a missing image reaches the console
  only.
\<close>

theorem editImageWithPrompt_no_image_surfaces_generic:
  "editImageWithPrompt
     (\<lambda>_. Responds \<lparr>candidates = Some [\<lparr>content = Some \<lparr>parts = Some
        [\<lparr>inlineData = None, text_field = Some ''no image''\<rparr>]\<rparr>\<rparr>]\<rparr>)
     (Some ''QUJD'') ''image/png'' ''make it blue'' =
   (Inl (Error ''Failed to generate the image due to an API error. Please check the console and try again.''),
    \<lparr>requests = [edit_request (Some ''QUJD'') ''image/png'' ''make it blue''],
     console = [ConsoleError (Some ''Error calling Gemini API:'')
                  (Error ''No image data was found in the API response.'')]\<rparr>)"
  by (simp add: editImageWithPrompt_def edit_try_def response_parts_def)

text \<open>
  Claim C2. When the parts of the first candidate hold a part with inline data, the function
  resolves to \<^verbatim>\<open>data:<mimeType>;base64,<data>\<close> of the first such part in list order; the
  parts before it, which have none, are passed over, and the MIME type is the one of the
  response, not the argument \<open>m\<close>. (A field the response leaves undefined prints as
  \<^verbatim>\<open>undefined\<close>, as a template literal does.)
\<close>

theorem editImageWithPrompt_first_inline_part:
  assumes "generateContent (edit_request b m p) = Responds r"
    and "response_parts r = pre @ part # post"
    and "\<forall>q\<in>set pre. inlineData q = None"
    and "inlineData part = Some img"
  shows "fst (editImageWithPrompt generateContent b m p) =
           Inr (''data:'' @ template (blob.mimeType img) @ '';base64,'' @ template (data img))"
  using assms scan_parts_first [of pre part img post]
  by (simp add: editImageWithPrompt_def edit_try_def data_uri_def)

theorem editImageWithPrompt_first_inline_part_witness:
  "response_parts \<lparr>candidates = Some [\<lparr>content = Some \<lparr>parts = Some
        [\<lparr>inlineData = None, text_field = Some ''no image''\<rparr>,
         \<lparr>inlineData = Some \<lparr>data = Some ''Y'', mimeType = Some ''image/webp''\<rparr>, text_field = None\<rparr>]\<rparr>\<rparr>]\<rparr>
     = [\<lparr>inlineData = None, text_field = Some ''no image''\<rparr>] @
       \<lparr>inlineData = Some \<lparr>data = Some ''Y'', mimeType = Some ''image/webp''\<rparr>, text_field = None\<rparr> # [] \<and>
   fst (editImageWithPrompt
     (\<lambda>_. Responds \<lparr>candidates = Some [\<lparr>content = Some \<lparr>parts = Some
        [\<lparr>inlineData = None, text_field = Some ''no image''\<rparr>,
         \<lparr>inlineData = Some \<lparr>data = Some ''Y'', mimeType = Some ''image/webp''\<rparr>, text_field = None\<rparr>]\<rparr>\<rparr>]\<rparr>)
     (Some ''QUJD'') ''image/png'' ''make it blue'') = Inr ''data:image/webp;base64,Y''"
  using editImageWithPrompt_first_inline_part
    [of "\<lambda>_. Responds \<lparr>candidates = Some [\<lparr>content = Some \<lparr>parts = Some
        [\<lparr>inlineData = None, text_field = Some ''no image''\<rparr>,
         \<lparr>inlineData = Some \<lparr>data = Some ''Y'', mimeType = Some ''image/webp''\<rparr>, text_field = None\<rparr>]\<rparr>\<rparr>]\<rparr>"
        "Some ''QUJD''" "''image/png''" "''make it blue''"
        "\<lparr>candidates = Some [\<lparr>content = Some \<lparr>parts = Some
        [\<lparr>inlineData = None, text_field = Some ''no image''\<rparr>,
         \<lparr>inlineData = Some \<lparr>data = Some ''Y'', mimeType = Some ''image/webp''\<rparr>, text_field = None\<rparr>]\<rparr>\<rparr>]\<rparr>"
        "[\<lparr>inlineData = None, text_field = Some ''no image''\<rparr>]"
        "\<lparr>inlineData = Some \<lparr>data = Some ''Y'', mimeType = Some ''image/webp''\<rparr>, text_field = None\<rparr>"
        "[]" "\<lparr>data = Some ''Y'', mimeType = Some ''image/webp''\<rparr>"]
  by (simp add: response_parts_def)

text \<open>
  Claim C5. Whatever the call to the provider throws, the function rejects with one fixed
  message, which does not depend on what was thrown; the thrown value goes to the console
  and nowhere else.
\<close>

theorem editImageWithPrompt_api_failure:
  assumes "generateContent (edit_request b m p) = Throws e"
  shows "editImageWithPrompt generateContent b m p =
    (Inl (Error ''Failed to generate the image due to an API error. Please check the console and try again.''),
     \<lparr>requests = [edit_request b m p],
      console = [ConsoleError (Some ''Error calling Gemini API:'') e]\<rparr>)"
  using assms by (simp add: editImageWithPrompt_def edit_try_def)

theorem editImageWithPrompt_api_failure_witness:
  "editImageWithPrompt (\<lambda>_. Throws (Error ''API key not valid. Please pass a valid API key.''))
     (Some ''QUJD'') ''image/png'' ''make it blue'' =
    (Inl (Error ''Failed to generate the image due to an API error. Please check the console and try again.''),
     \<lparr>requests = [edit_request (Some ''QUJD'') ''image/png'' ''make it blue''],
      console = [ConsoleError (Some ''Error calling Gemini API:'')
                   (Error ''API key not valid. Please pass a valid API key.'')]\<rparr>)"
  using editImageWithPrompt_api_failure
    [of "\<lambda>_. Throws (Error ''API key not valid. Please pass a valid API key.'')"
        "Some ''QUJD''" "''image/png''" "''make it blue''"
        "Error ''API key not valid. Please pass a valid API key.''"]
  by simp

text \<open>
  The run in a world and the run against one provider agree: the provider is the world's
  answer to the call of the current number, and the requests and console lines of the one
  are appended to the world by the other.
\<close>

lemma editImageWithPrompt_in_agrees:
  "editImageWithPrompt_in b m p w =
     (fst (editImageWithPrompt (answers w (length (sent w))) b m p),
      w\<lparr>sent := sent w @ requests (snd (editImageWithPrompt (answers w (length (sent w))) b m p)),
        logged := logged w @ console (snd (editImageWithPrompt (answers w (length (sent w))) b m p))\<rparr>)"
  by (simp add: editImageWithPrompt_in_def editImageWithPrompt_def ai_models_generateContent_def
      console_error_def Let_def split: sum.splits)

text \<open>
  Claim C8. Every invocation issues exactly one call: whatever the world, the requests sent
  grow by one, the request built from the three arguments, which it carries as they were
  given (they are immutable strings). The outcome is the \<^verbatim>\<open>try\<close> block's verdict on the
  answer to that call and on nothing else: the answers to later calls are never asked for,
  so a call that fails is not repeated, and two worlds that answer this call alike give the
  same outcome.
\<close>

theorem editImageWithPrompt_exactly_one_call:
  "sent (snd (editImageWithPrompt_in b m p w)) = sent w @ [edit_request b m p] \<and>
   answers (snd (editImageWithPrompt_in b m p w)) = answers w \<and>
   parts (contents (edit_request b m p)) =
     Some [\<lparr>inlineData = Some \<lparr>data = b, mimeType = Some m\<rparr>, text_field = None\<rparr>,
           \<lparr>inlineData = None, text_field = Some p\<rparr>] \<and>
   fst (editImageWithPrompt_in b m p w) =
     (case edit_try (answers w (length (sent w)) (edit_request b m p)) of
        Inr uri \<Rightarrow> Inr uri
      | Inl e \<Rightarrow> Inl (Error ''Failed to generate the image due to an API error. Please check the console and try again.'')) \<and>
   (answers w (length (sent w)) (edit_request b m p) =
    answers w' (length (sent w')) (edit_request b m p) \<longrightarrow>
      fst (editImageWithPrompt_in b m p w) = fst (editImageWithPrompt_in b m p w'))"
proof -
  let ?req = "edit_request b m p"
  have call: "ai_models_generateContent ?req v =
      (answers v (length (sent v)) ?req, v\<lparr>sent := sent v @ [?req]\<rparr>)" for v
    by (simp add: ai_models_generateContent_def)
  have res: "fst (editImageWithPrompt_in b m p v) =
     (case edit_try (answers v (length (sent v)) ?req) of
        Inr uri \<Rightarrow> Inr uri
      | Inl e \<Rightarrow> Inl (Error ''Failed to generate the image due to an API error. Please check the console and try again.''))" for v
    by (simp add: editImageWithPrompt_in_def call split: sum.splits)
  have log: "sent (snd (editImageWithPrompt_in b m p w)) = sent w @ [?req]"
    by (simp add: editImageWithPrompt_in_def call console_error_def split: sum.splits)
  have frame: "answers (snd (editImageWithPrompt_in b m p w)) = answers w"
    by (simp add: editImageWithPrompt_in_def call console_error_def split: sum.splits)
  have args: "parts (contents ?req) =
     Some [\<lparr>inlineData = Some \<lparr>data = b, mimeType = Some m\<rparr>, text_field = None\<rparr>,
           \<lparr>inlineData = None, text_field = Some p\<rparr>]"
    by (simp add: edit_request_def)
  have same: "answers w (length (sent w)) ?req = answers w' (length (sent w')) ?req \<longrightarrow>
      fst (editImageWithPrompt_in b m p w) = fst (editImageWithPrompt_in b m p w')"
    by (simp add: res)
  from log frame args res [of w] same show ?thesis by blast
qed

theorem editImageWithPrompt_exactly_one_call_witness:
  "editImageWithPrompt_in (Some ''QUJD'') ''image/png'' ''make it blue''
     \<lparr>sent = [],
      answers = (\<lambda>n req. if n = 0 then Throws (Error ''quota exceeded'')
         else Responds \<lparr>candidates = Some [\<lparr>content = Some \<lparr>parts = Some
           [\<lparr>inlineData = Some \<lparr>data = Some ''Y'', mimeType = Some ''image/webp''\<rparr>,
             text_field = None\<rparr>]\<rparr>\<rparr>]\<rparr>),
      logged = []\<rparr> =
   (Inl (Error ''Failed to generate the image due to an API error. Please check the console and try again.''),
    \<lparr>sent = [edit_request (Some ''QUJD'') ''image/png'' ''make it blue''],
      answers = (\<lambda>n req. if n = 0 then Throws (Error ''quota exceeded'')
         else Responds \<lparr>candidates = Some [\<lparr>content = Some \<lparr>parts = Some
           [\<lparr>inlineData = Some \<lparr>data = Some ''Y'', mimeType = Some ''image/webp''\<rparr>,
             text_field = None\<rparr>]\<rparr>\<rparr>]\<rparr>),
      logged = [ConsoleError (Some ''Error calling Gemini API:'') (Error ''quota exceeded'')]\<rparr>) \<and>
   fst (editImageWithPrompt_in (Some ''QUJD'') ''image/png'' ''make it blue''
     \<lparr>sent = [],
      answers = (\<lambda>n req. if n = 0 then Throws (Error ''quota exceeded'')
         else Responds \<lparr>candidates = Some [\<lparr>content = Some \<lparr>parts = Some
           [\<lparr>inlineData = Some \<lparr>data = Some ''Y'', mimeType = Some ''image/webp''\<rparr>,
             text_field = None\<rparr>]\<rparr>\<rparr>]\<rparr>),
      logged = []\<rparr>) =
   fst (editImageWithPrompt_in (Some ''QUJD'') ''image/png'' ''make it blue''
     \<lparr>sent = [edit_request None ''image/jpeg'' ''earlier''],
      answers = (\<lambda>n req. Throws (Error ''quota exceeded'')),
      logged = []\<rparr>)"
  using editImageWithPrompt_exactly_one_call
    [of "Some ''QUJD''" "''image/png''" "''make it blue''"
      "\<lparr>sent = [],
      answers = (\<lambda>n req. if n = 0 then Throws (Error ''quota exceeded'')
         else Responds \<lparr>candidates = Some [\<lparr>content = Some \<lparr>parts = Some
           [\<lparr>inlineData = Some \<lparr>data = Some ''Y'', mimeType = Some ''image/webp''\<rparr>,
             text_field = None\<rparr>]\<rparr>\<rparr>]\<rparr>),
      logged = []\<rparr>"
      "\<lparr>sent = [edit_request None ''image/jpeg'' ''earlier''],
      answers = (\<lambda>n req. Throws (Error ''quota exceeded'')),
      logged = []\<rparr>"]
  by (simp add: editImageWithPrompt_in_def ai_models_generateContent_def console_error_def
      edit_try_def)

section \<open>The controller\<close>

text \<open>
  Claim C4. When no image is uploaded, or the prompt is empty or consists of white space
  only, \<^verbatim>\<open>handleGenerate\<close> returns at once: no request is sent, nothing is logged, the
  error message becomes \<^verbatim>\<open>Please upload an image and enter a prompt.\<close> and every other
  field of the state is as before.
\<close>

theorem handleGenerate_validation:
  assumes "uploadedImageFile st = None \<or> list_all js_whitespace (prompt st)"
  shows "handleGenerate reader generateContent st =
           \<lparr>awaiting = None,
            settled = st\<lparr>error := Some ''Please upload an image and enter a prompt.''\<rparr>,
            did = \<lparr>requests = [], console = []\<rparr>\<rparr>"
  using assms by (auto simp: handleGenerate_def trim_empty_iff split: option.splits)

theorem handleGenerate_validation_witness:
  "list_all js_whitespace [CHR 0x20, CHR 0x09, CHR 0x0A] \<and>
   handleGenerate (\<lambda>_. Loaded ''data:image/png;base64,QUJD'')
     (\<lambda>_. Throws (Error ''unreachable''))
     \<lparr>uploadedImageFile = Some (File 0), uploadedImagePreview = Some ''data:image/png;base64,QUJD'',
      prompt = [CHR 0x20, CHR 0x09, CHR 0x0A], generatedImage = Some ''data:image/png;base64,T0xE'',
      isLoading = False, error = None\<rparr> =
   \<lparr>awaiting = None,
    settled = \<lparr>uploadedImageFile = Some (File 0), uploadedImagePreview = Some ''data:image/png;base64,QUJD'',
      prompt = [CHR 0x20, CHR 0x09, CHR 0x0A], generatedImage = Some ''data:image/png;base64,T0xE'',
      isLoading = False, error = Some ''Please upload an image and enter a prompt.''\<rparr>,
    did = \<lparr>requests = [], console = []\<rparr>\<rparr>"
  using handleGenerate_validation
    [of "\<lparr>uploadedImageFile = Some (File 0), uploadedImagePreview = Some ''data:image/png;base64,QUJD'',
      prompt = [CHR 0x20, CHR 0x09, CHR 0x0A], generatedImage = Some ''data:image/png;base64,T0xE'',
      isLoading = False, error = None\<rparr>"
      "\<lambda>_. Loaded ''data:image/png;base64,QUJD''" "\<lambda>_. Throws (Error ''unreachable'')"]
  by (simp add: js_whitespace_def)

text \<open>
  Selecting a file that cannot be read does not reset the controller: the image generated
  before stays, and an error message is set.
\<close>

theorem handleFileChange_read_failure_counterexample:
  "\<not> (generatedImage (fst (handleFileChange (\<lambda>_. ReadFailed) (Some (File 1))
          \<lparr>uploadedImageFile = Some (File 0), uploadedImagePreview = Some ''data:image/png;base64,QUJD'',
           prompt = ''make it blue'', generatedImage = Some ''data:image/png;base64,T0xE'',
           isLoading = False, error = None\<rparr>)) = None \<and>
       error (fst (handleFileChange (\<lambda>_. ReadFailed) (Some (File 1))
          \<lparr>uploadedImageFile = Some (File 0), uploadedImagePreview = Some ''data:image/png;base64,QUJD'',
           prompt = ''make it blue'', generatedImage = Some ''data:image/png;base64,T0xE'',
           isLoading = False, error = None\<rparr>)) = None)"
  by (simp add: handleFileChange_def fileToData_def)

text \<open>
  Claim C6, as the code has it. Selecting a file whose read succeeds stores the file, sets
  the preview to its data URL and clears the generated image and the error, leaving the
  prompt and the loading flag as they were; when the read fails, the error message becomes
  \<^verbatim>\<open>Could not read the selected file.\<close>
\<close>

theorem handleFileChange_effect:
  "(reader file = Loaded result \<longrightarrow>
      fst (handleFileChange reader (Some file) st) =
        st\<lparr>uploadedImageFile := Some file, uploadedImagePreview := Some result,
           generatedImage := None, error := None\<rparr>) \<and>
   (reader file = ReadFailed \<longrightarrow>
      error (fst (handleFileChange reader (Some file) st)) = Some ''Could not read the selected file.'')"
  by (simp add: handleFileChange_def fileToData_def fileToData_onload_def Let_def)

theorem handleFileChange_effect_witness:
  "fst (handleFileChange (\<lambda>f. if f = File 1 then Loaded ''data:image/webp;base64,TkVX'' else ReadFailed)
      (Some (File 1))
      \<lparr>uploadedImageFile = Some (File 0), uploadedImagePreview = Some ''data:image/png;base64,QUJD'',
       prompt = ''make it blue'', generatedImage = Some ''data:image/png;base64,T0xE'',
       isLoading = False, error = Some ''An unknown error occurred.''\<rparr>) =
     \<lparr>uploadedImageFile = Some (File 1), uploadedImagePreview = Some ''data:image/webp;base64,TkVX'',
       prompt = ''make it blue'', generatedImage = None, isLoading = False, error = None\<rparr> \<and>
   error (fst (handleFileChange (\<lambda>f. if f = File 1 then Loaded ''data:image/webp;base64,TkVX'' else ReadFailed)
      (Some (File 2))
      \<lparr>uploadedImageFile = Some (File 0), uploadedImagePreview = Some ''data:image/png;base64,QUJD'',
       prompt = ''make it blue'', generatedImage = Some ''data:image/png;base64,T0xE'',
       isLoading = False, error = Some ''An unknown error occurred.''\<rparr>)) =
     Some ''Could not read the selected file.''"
  using handleFileChange_effect
    [of "\<lambda>f. if f = File 1 then Loaded ''data:image/webp;base64,TkVX'' else ReadFailed" "File 1"
        "''data:image/webp;base64,TkVX''"
        "\<lparr>uploadedImageFile = Some (File 0), uploadedImagePreview = Some ''data:image/png;base64,QUJD'',
       prompt = ''make it blue'', generatedImage = Some ''data:image/png;base64,T0xE'',
       isLoading = False, error = Some ''An unknown error occurred.''\<rparr>"]
    handleFileChange_effect
    [of "\<lambda>f. if f = File 1 then Loaded ''data:image/webp;base64,TkVX'' else ReadFailed" "File 2"
        "''data:image/webp;base64,TkVX''"
        "\<lparr>uploadedImageFile = Some (File 0), uploadedImagePreview = Some ''data:image/png;base64,QUJD'',
       prompt = ''make it blue'', generatedImage = Some ''data:image/png;base64,T0xE'',
       isLoading = False, error = Some ''An unknown error occurred.''\<rparr>"]
  by simp

text \<open>
  Claim C9. On a valid dispatch (an image is uploaded and the trimmed prompt is not empty)
  the state shown while the handler awaits has the loading flag set and neither a generated
  image nor an error, all else unchanged. When the attempt then fails, in reading the file
  or in the edit client, the settled state still has no generated image, and it has an
  error message.
\<close>

theorem handleGenerate_clears_before_awaiting:
  assumes "uploadedImageFile st = Some file" and "trim (prompt st) \<noteq> []"
  shows "awaiting (handleGenerate reader generateContent st) =
           Some (st\<lparr>isLoading := True, error := None, generatedImage := None\<rparr>) \<and>
         (fileToData reader file = Inl err \<longrightarrow>
            generatedImage (settled (handleGenerate reader generateContent st)) = None \<and>
            error (settled (handleGenerate reader generateContent st)) \<noteq> None) \<and>
         (fileToData reader file = Inr d \<and>
          fst (editImageWithPrompt generateContent (base64 d) (mimeType d) (prompt st)) = Inl err \<longrightarrow>
            generatedImage (settled (handleGenerate reader generateContent st)) = None \<and>
            error (settled (handleGenerate reader generateContent st)) \<noteq> None)"
  using assms
  by (auto simp: handleGenerate_def generate_failed_def Let_def split: sum.splits prod.splits)

theorem handleGenerate_clears_before_awaiting_witness:
  "uploadedImageFile
     \<lparr>uploadedImageFile = Some (File 0), uploadedImagePreview = Some ''data:image/png;base64,QUJD'',
      prompt = ''make it blue'', generatedImage = Some ''data:image/png;base64,T0xE'',
      isLoading = False, error = Some ''An unknown error occurred.''\<rparr> = Some (File 0) \<and>
   trim ''make it blue'' \<noteq> [] \<and>
   handleGenerate (\<lambda>_. Loaded ''data:image/png;base64,QUJD'')
     (\<lambda>_. Throws (Error ''quota exceeded''))
     \<lparr>uploadedImageFile = Some (File 0), uploadedImagePreview = Some ''data:image/png;base64,QUJD'',
      prompt = ''make it blue'', generatedImage = Some ''data:image/png;base64,T0xE'',
      isLoading = False, error = Some ''An unknown error occurred.''\<rparr> =
   \<lparr>awaiting = Some
      \<lparr>uploadedImageFile = Some (File 0), uploadedImagePreview = Some ''data:image/png;base64,QUJD'',
       prompt = ''make it blue'', generatedImage = None, isLoading = True, error = None\<rparr>,
    settled =
      \<lparr>uploadedImageFile = Some (File 0), uploadedImagePreview = Some ''data:image/png;base64,QUJD'',
       prompt = ''make it blue'', generatedImage = None, isLoading = False,
       error = Some ''Failed to generate the image due to an API error. Please check the console and try again.''\<rparr>,
    did = \<lparr>requests = [edit_request (Some ''QUJD'') ''image/png'' ''make it blue''],
           console = [ConsoleError (Some ''Error calling Gemini API:'') (Error ''quota exceeded''),
                      ConsoleError None (Error ''Failed to generate the image due to an API error. Please check the console and try again.'')]\<rparr>\<rparr>"
  using handleGenerate_clears_before_awaiting
    [of "\<lparr>uploadedImageFile = Some (File 0), uploadedImagePreview = Some ''data:image/png;base64,QUJD'',
      prompt = ''make it blue'', generatedImage = Some ''data:image/png;base64,T0xE'',
      isLoading = False, error = Some ''An unknown error occurred.''\<rparr>" "File 0"
      "\<lambda>_. Loaded ''data:image/png;base64,QUJD''" "\<lambda>_. Throws (Error ''quota exceeded'')"
      "Error ''Failed to generate the image due to an API error. Please check the console and try again.''"
      "fileToData_onload ''data:image/png;base64,QUJD''"]
  by (simp add: handleGenerate_def fileToData_def fileToData_onload_def split_comma_def trim_def
      js_whitespace_def line_terminator_def editImageWithPrompt_def edit_try_def generate_failed_def)

end
